theory Spec2Isabelle
  imports Main
begin

section \<open>The novis gateway: registry, health check, router and discovery\<close>

text \<open>
  A shallow embedding of \<^verbatim>\<open>novis.go\<close> and \<^verbatim>\<open>utils.go\<close>. One handler or
  registry operation is one function from the gateway's state to its next state; the
  reader/writer locks have no effect on a single operation run alone and are left out,
  and so are the HTTP server and its port.
  The registry \<^verbatim>\<open>map[string]*Service\<close> is a map from keys to Service records: an update
  through the stored pointer is an update of the entry, which is what the source does as
  long as no Service object is registered under two keys (NewFromConfig, LoadFromStorage
  and discovery allocate a new object for each insert).
  Go does not fix the order in which \<^verbatim>\<open>range\<close> visits a map, so every loop over a map
  takes the order of the keys as an argument.
\<close>

subsection \<open>The functions of package strings that work on bytes\<close>

text \<open>
  Go strings are byte strings; \<^typ>\<open>string\<close> is a list of bytes too. Trim with the cut
  set \<^verbatim>\<open>/\<close>, HasPrefix, Split at \<^verbatim>\<open>/\<close> and Replace of a non-empty text compare bytes, and
  are modelled as package strings documents them.
\<close>

definition Trim :: "string \<Rightarrow> string \<Rightarrow> string" where
  "Trim s cutset =
     rev (dropWhile (\<lambda>c. c \<in> set cutset) (rev (dropWhile (\<lambda>c. c \<in> set cutset) s)))"

definition HasPrefix :: "string \<Rightarrow> string \<Rightarrow> bool" where
  "HasPrefix s pre = (length pre \<le> length s \<and> take (length pre) s = pre)"

text \<open>\<^verbatim>\<open>strings.Split(s, "/")\<close>: the pieces between the separators, at least one piece.\<close>

fun split_from :: "char \<Rightarrow> string \<Rightarrow> string \<Rightarrow> string list" where
  "split_from sep acc [] = [rev acc]"
| "split_from sep acc (c # cs) =
     (if c = sep then rev acc # split_from sep [] cs else split_from sep (c # acc) cs)"

definition Split :: "string \<Rightarrow> char \<Rightarrow> string list" where
  "Split s sep = split_from sep [] s"

text \<open>
  \<^verbatim>\<open>strings.Replace(s, old, new, n)\<close> for \<open>n \<ge> 0\<close> and a non-empty \<open>old\<close>: the first
  \<open>n\<close> occurrences of \<open>old\<close>, found from the left without overlap, become \<open>new\<close>.
\<close>

fun replace_scan :: "string \<Rightarrow> string \<Rightarrow> string \<Rightarrow> nat \<Rightarrow> string" where
  "replace_scan s old new 0 = s"
| "replace_scan [] old new (Suc n) = []"
| "replace_scan (c # cs) old new (Suc n) =
     (if HasPrefix (c # cs) old then new @ replace_scan (drop (length old) (c # cs)) old new n
      else c # replace_scan cs old new (Suc n))"

definition Replace :: "string \<Rightarrow> string \<Rightarrow> string \<Rightarrow> nat \<Rightarrow> string" where
  "Replace s old new n = (if old = new \<or> n = 0 then s else replace_scan s old new n)"

subsection \<open>utils.go\<close>

fun removeEmptyStr :: "string list \<Rightarrow> string list" where
  "removeEmptyStr [] = []"
| "removeEmptyStr (s # l) = (if length s > 0 then s # removeEmptyStr l else removeEmptyStr l)"

subsection \<open>The data model\<close>

text \<open>\<^verbatim>\<open>type ServiceStatus string\<close> with its four constants.\<close>

type_synonym ServiceStatus = string

definition UP :: ServiceStatus where "UP = ''UP''"
definition DOWN :: ServiceStatus where "DOWN = ''DOWN''"
definition PAUSE :: ServiceStatus where "PAUSE = ''PAUSE''"
definition CHECKING :: ServiceStatus where "CHECKING = ''CHECKING''"

definition svcKey :: string where "svcKey = ''_NOVIS_SVCS_''"

text \<open>
  The result of \<^verbatim>\<open>url.Parse\<close>, of which the source reads the host. A reverse proxy made
  by \<^verbatim>\<open>NewSingleHostReverseProxy\<close> is identified with its target.
\<close>

record URL =
  URL_Scheme :: string
  URL_Host :: string

type_synonym ReverseProxy = URL

record Service =
  Host :: string
  Path :: string
  Status :: ServiceStatus
  HealthCheckURL :: string
  reverseProxy :: "ReverseProxy option"

text \<open>
  The functions of the Go libraries that the source calls and that are not modelled
  here are taken as they come, as the fields of one record that every operation
  receives:
  \<^item> \<^verbatim>\<open>strings.ToLower\<close>, which lower-cases every Unicode letter;
  \<^item> \<^verbatim>\<open>url.Parse\<close>, None being its error;
  \<^item> \<^verbatim>\<open>json.Marshal\<close> of the registry, giving the text that is stored (of a type
    \<open>'t\<close>), and \<^verbatim>\<open>json.Unmarshal\<close> of such a text into a map of services, None being
    its error;
  \<^item> the decoder of a request body into a Service, None being its error;
  \<^item> \<^verbatim>\<open>net.DialTimeout\<close> with the network, the address and the timeout in seconds:
    whether the connection is made.
  A theorem names what it needs of them as a hypothesis.
\<close>

record 't Library =
  strings_ToLower :: "string \<Rightarrow> string"
  url_Parse :: "string \<Rightarrow> URL option"
  json_Marshal :: "(string \<Rightarrow> Service option) \<Rightarrow> 't"
  json_Unmarshal :: "'t \<Rightarrow> (string \<Rightarrow> Service option) option"
  json_Decode :: "string \<Rightarrow> Service option"
  net_DialTimeout :: "string \<Rightarrow> string \<Rightarrow> nat \<Rightarrow> bool"

text \<open>
  The exported fields of a Service, which are what the JSON text holds of it: the proxy
  is not among them.
\<close>

definition exported :: "Service \<Rightarrow> Service" where
  "exported s = s\<lparr>reverseProxy := None\<rparr>"

text \<open>
  The redis server: the text under each key, and whether the server can be reached. A
  command fails when it cannot. \<^verbatim>\<open>redis.Options\<close> is identified with the server that it
  names; NewClient reads the options through the pointer it is given.
\<close>

record 't Storage =
  contents :: "string \<Rightarrow> 't option"
  online :: bool

record 't ProxyOptions =
  Timeout :: nat
  DiscoveryURL :: string
  StorageOpts :: "'t Storage option"

record 't Novis =
  services :: "string \<Rightarrow> Service option"
  storage :: "'t Storage"
  opts :: "'t ProxyOptions"

datatype error =
    redis_Nil
  | StorageError
  | UnmarshalError
  | ParseError
  | MethodNotAllowed
  | DecodeError
  | HealthCheckURLNotValid

datatype panic = NilPointerDereference

subsection \<open>Storage\<close>

definition redis_NewClient :: "'t Storage option \<Rightarrow> panic + 't Storage" where
  "redis_NewClient opt = (case opt of None \<Rightarrow> Inl NilPointerDereference | Some st \<Rightarrow> Inr st)"

definition storage_Get :: "'t Storage \<Rightarrow> string \<Rightarrow> error + 't" where
  "storage_Get st key =
     (if \<not> online st then Inl StorageError
      else case contents st key of None \<Rightarrow> Inl redis_Nil | Some v \<Rightarrow> Inr v)"

definition storage_Set :: "'t Storage \<Rightarrow> string \<Rightarrow> 't \<Rightarrow> error + 't Storage" where
  "storage_Set st key v =
     (if \<not> online st then Inl StorageError
      else Inr (st\<lparr>contents := (contents st)(key \<mapsto> v)\<rparr>))"

text \<open>\<^verbatim>\<open>json.Marshal\<close> has no error on a map of services.\<close>

definition UpdateStorage :: "'t Library \<Rightarrow> 't Novis \<Rightarrow> error option \<times> 't Novis" where
  "UpdateStorage lib n =
     (let svcJSON = json_Marshal lib (services n) in
      case storage_Set (storage n) svcKey svcJSON of
        Inl e \<Rightarrow> (Some e, n)
      | Inr st \<Rightarrow> (None, n\<lparr>storage := st\<rparr>))"

subsection \<open>The registry\<close>

text \<open>AddService returns nil on both paths; the error of UpdateStorage is dropped.\<close>

definition AddService :: "'t Library \<Rightarrow> 't Novis \<Rightarrow> Service \<Rightarrow> error option \<times> 't Novis" where
  "AddService lib n service =
     (let p = Trim (Path service) ''/'' in
      if length p > 0 then
        (let n1 = n\<lparr>services := (services n)(strings_ToLower lib p \<mapsto> service)\<rparr>;
             (err, n2) = UpdateStorage lib n1
         in (None, n2))
      else (None, n))"

text \<open>
  SetStatus on the entry of the key. A key that is absent yields the nil pointer, and
  SetStatus reads \<^verbatim>\<open>s.mux\<close> through it.
\<close>

definition SetStatus_at :: "'t Novis \<Rightarrow> string \<Rightarrow> ServiceStatus \<Rightarrow> panic + 't Novis" where
  "SetStatus_at n k st =
     (case services n k of
        None \<Rightarrow> Inl NilPointerDereference
      | Some s \<Rightarrow> Inr (n\<lparr>services := (services n)(k \<mapsto> s\<lparr>Status := st\<rparr>)\<rparr>))"

definition PauseService :: "'t Library \<Rightarrow> 't Novis \<Rightarrow> Service \<Rightarrow> panic + 't Novis" where
  "PauseService lib n service =
     (let p = Split (Path service) CHR ''/'' in
      if length p > 0 then SetStatus_at n (strings_ToLower lib (p ! 0)) PAUSE else Inr n)"

definition ResumeService :: "'t Library \<Rightarrow> 't Novis \<Rightarrow> Service \<Rightarrow> panic + 't Novis" where
  "ResumeService lib n service =
     (let p = Split (Path service) CHR ''/'' in
      if length p > 0 then SetStatus_at n (strings_ToLower lib (p ! 0)) CHECKING else Inr n)"

definition RemoveService :: "'t Library \<Rightarrow> 't Novis \<Rightarrow> Service \<Rightarrow> error option \<times> 't Novis" where
  "RemoveService lib n service =
     (let p = Split (Path service) CHR ''/'' in
      if length p > 0 then
        (let lp = strings_ToLower lib (p ! 0) in
         case services n lp of
           Some s \<Rightarrow> UpdateStorage lib (n\<lparr>services := (services n)(lp := None)\<rparr>)
         | None \<Rightarrow> (None, n))
      else (None, n))"

text \<open>
  The keys in the order \<^verbatim>\<open>range\<close> yields them: each key of the map once.
\<close>

definition range_order :: "('k \<Rightarrow> 'v option) \<Rightarrow> 'k list \<Rightarrow> bool" where
  "range_order m ks = (distinct ks \<and> set ks = dom m)"

fun findServiceInMap :: "'t Library \<Rightarrow> string list \<Rightarrow> string \<Rightarrow> string" where
  "findServiceInMap lib [] path = []"
| "findServiceInMap lib (k # ks) path =
     (if HasPrefix (strings_ToLower lib path) (strings_ToLower lib k) then k
      else findServiceInMap lib ks path)"

subsection \<open>Loading the snapshot, construction\<close>

text \<open>
  The loop of LoadFromStorage over the decoded services \<open>vs\<close>, in the order \<^verbatim>\<open>range\<close>
  yields them. The Service it builds has no Status field in its literal, so the status
  is Go's zero value, the empty string.
\<close>

fun load_services :: "'t Library \<Rightarrow> Service list \<Rightarrow> 't Novis \<Rightarrow> error option \<times> 't Novis" where
  "load_services lib [] n = (None, n)"
| "load_services lib (v # vs) n =
     (case url_Parse lib (Host v) of
        None \<Rightarrow> (Some ParseError, n)
      | Some sURL \<Rightarrow>
          (let proxy = sURL;
               (err, n1) = AddService lib n
                 \<lparr>Host = Host v, Path = Path v, Status = [],
                  HealthCheckURL = HealthCheckURL v, reverseProxy = Some proxy\<rparr>
           in load_services lib vs n1))"

definition range_values :: "('k \<Rightarrow> 'v option) \<Rightarrow> 'k list \<Rightarrow> 'v list" where
  "range_values m ks = List.map_filter m ks"

definition LoadFromStorage ::
  "'t Library \<Rightarrow> string list \<Rightarrow> 't Novis \<Rightarrow> error option \<times> 't Novis" where
  "LoadFromStorage lib ks n =
     (case storage_Get (storage n) svcKey of
        Inl err \<Rightarrow> if err = redis_Nil then (None, n) else (Some err, n)
      | Inr res \<Rightarrow>
          (case json_Unmarshal lib res of
             None \<Rightarrow> (Some UnmarshalError, n)
           | Some svcs \<Rightarrow> load_services lib (range_values svcs ks) n))"

text \<open>
  New. With no options the defaults carry no storage options, and NewClient is called
  with that nil pointer. The results of LoadFromStorage and UpdateStorage are not looked
  at.
\<close>

definition New :: "'t Library \<Rightarrow> string list \<Rightarrow> 't ProxyOptions option \<Rightarrow> panic + 't Novis" where
  "New lib ks opts0 =
     (let opts1 = (case opts0 of
                     None \<Rightarrow> \<lparr>Timeout = 10, DiscoveryURL = ''discovery'', StorageOpts = None\<rparr>
                   | Some o1 \<Rightarrow> o1)
      in case redis_NewClient (StorageOpts opts1) of
           Inl p \<Rightarrow> Inl p
         | Inr st \<Rightarrow>
             (let n = \<lparr>services = Map.empty, storage = st, opts = opts1\<rparr>;
                  (err1, n1) = LoadFromStorage lib ks n;
                  (err2, n2) = UpdateStorage lib n1
              in Inr n2))"

text \<open>
  NewFromConfig from the decoded YAML file (reading and parsing the file is outside the
  model). The key of a seeded service is its trimmed path, as it is written.
\<close>

record Configuration =
  Port :: nat
  Server_Timeout :: nat
  Server_Discovery_Path :: string
  Server_Services :: "Service list"

fun initialServices ::
  "'t Library \<Rightarrow> Service list \<Rightarrow> (string \<Rightarrow> Service option)
     \<Rightarrow> error + (string \<Rightarrow> Service option)" where
  "initialServices lib [] m = Inr m"
| "initialServices lib (c # cs) m =
     (case url_Parse lib (Host c) of
        None \<Rightarrow> Inl ParseError
      | Some sURL \<Rightarrow>
          (let proxy = sURL; p = Trim (Path c) ''/'' in
           initialServices lib cs
             (m(p \<mapsto> \<lparr>Host = Host c, Path = Path c, Status = CHECKING,
                     HealthCheckURL = HealthCheckURL c, reverseProxy = Some proxy\<rparr>))))"

definition NewFromConfig ::
  "'t Library \<Rightarrow> string list \<Rightarrow> Configuration \<Rightarrow> 't Storage option
     \<Rightarrow> panic + error + ('t Novis \<times> error option)" where
  "NewFromConfig lib ks yc storageOpts =
     (case initialServices lib (Server_Services yc) Map.empty of
        Inl err \<Rightarrow> Inr (Inl err)
      | Inr m \<Rightarrow>
          (case redis_NewClient storageOpts of
             Inl p \<Rightarrow> Inl p
           | Inr st \<Rightarrow>
               (let nn = \<lparr>services = m, storage = st,
                          opts = \<lparr>Timeout = Server_Timeout yc,
                                  DiscoveryURL = Server_Discovery_Path yc,
                                  StorageOpts = storageOpts\<rparr>\<rparr>;
                    (err, nn1) = LoadFromStorage lib ks nn;
                    (err2, nn2) = UpdateStorage lib nn1
                in Inr (Inr (nn2, err)))))"

subsection \<open>The health check\<close>

text \<open>
  One tick of the ticker runs the loop over the registry once. The loop reports what it
  does, each report with the key of the entry it is visiting: the address it dials and
  the call of UpdateStorage.
\<close>

definition isServiceAlive :: "'t Library \<Rightarrow> string \<Rightarrow> ServiceStatus" where
  "isServiceAlive lib u =
     (let to = 3 in if \<not> net_DialTimeout lib ''tcp'' u to then DOWN else UP)"

datatype event = Dialed string string | Snapshot string

definition healthCheck_service ::
  "'t Library \<Rightarrow> 't Novis \<Rightarrow> string \<Rightarrow> Service \<Rightarrow> event list \<times> 't Novis" where
  "healthCheck_service lib n k s =
     (let currentStatus = Status s in
      if currentStatus \<noteq> PAUSE then
        (let sHost = HealthCheckURL s;
             status = isServiceAlive lib sHost
         in if currentStatus \<noteq> status then
              (let (err, n1) =
                     UpdateStorage lib
                       (n\<lparr>services := (services n)(k \<mapsto> s\<lparr>Status := status\<rparr>)\<rparr>)
               in ([Dialed k sHost, Snapshot k], n1))
            else ([Dialed k sHost], n))
      else ([], n))"

fun healthCheck_tick ::
  "'t Library \<Rightarrow> string list \<Rightarrow> 't Novis \<Rightarrow> event list \<times> 't Novis" where
  "healthCheck_tick lib [] n = ([], n)"
| "healthCheck_tick lib (k # ks) n =
     (case services n k of
        None \<Rightarrow> healthCheck_tick lib ks n
      | Some s \<Rightarrow>
          (let (evs1, n1) = healthCheck_service lib n k s;
               (evs2, n2) = healthCheck_tick lib ks n1
           in (evs1 @ evs2, n2)))"

text \<open>The key of the entry that a report belongs to.\<close>

fun event_key :: "event \<Rightarrow> string" where
  "event_key (Dialed k u) = k"
| "event_key (Snapshot k) = k"

subsection \<open>Discovery and the router\<close>

record Request =
  Method :: string
  URL_Path :: string
  RequestURI :: string
  Req_Host :: string
  Body :: string

text \<open>
  The response writer is the list of the calls of Respond it has received, each with its
  status code and body.
\<close>

type_synonym ResponseWriter = "(nat \<times> string) list"

definition StatusOK :: nat where "StatusOK = 200"
definition StatusBadRequest :: nat where "StatusBadRequest = 400"
definition StatusNotFound :: nat where "StatusNotFound = 404"
definition StatusMethodNotAllowed :: nat where "StatusMethodNotAllowed = 405"
definition StatusBadGateway :: nat where "StatusBadGateway = 502"

definition Respond :: "ResponseWriter \<Rightarrow> nat \<Rightarrow> string \<Rightarrow> ResponseWriter" where
  "Respond res status msg = res @ [(status, msg)]"

text \<open>
  discovery after its first \<^verbatim>\<open>if\<close>: decoding the body, the check of the health check
  URL, and the insert.
\<close>

definition discovery_decode ::
  "'t Library \<Rightarrow> 't Novis \<Rightarrow> ResponseWriter \<Rightarrow> Request
     \<Rightarrow> error option \<times> 't Novis \<times> ResponseWriter" where
  "discovery_decode lib n res req =
     (case json_Decode lib (Body req) of
        None \<Rightarrow> (Some DecodeError, n, Respond res StatusBadRequest [])
      | Some s \<Rightarrow>
          if length (HealthCheckURL s) = 0 then
            (Some HealthCheckURLNotValid, n,
             Respond res StatusBadRequest ''Health check url is not valid'')
          else
            (let s1 = s\<lparr>Status := CHECKING\<rparr> in
             case url_Parse lib (Host s1) of
               None \<Rightarrow> (Some ParseError, n, Respond res StatusBadRequest [])
             | Some sURL \<Rightarrow>
                 (let proxy = sURL;
                      s2 = s1\<lparr>reverseProxy := Some proxy\<rparr>;
                      (err, n1) = AddService lib n s2
                  in (None, n1, res))))"

definition discovery ::
  "'t Library \<Rightarrow> 't Novis \<Rightarrow> ResponseWriter \<Rightarrow> Request
     \<Rightarrow> error option \<times> 't Novis \<times> ResponseWriter" where
  "discovery lib n res req =
     (let paths = removeEmptyStr (Split (URL_Path req) CHR ''/'') in
      if length paths \<noteq> 1 then
        discovery_decode lib n (Respond res StatusNotFound []) req
      else if strings_ToLower lib (Method req) \<noteq> ''post'' then
        (Some MethodNotAllowed, n, Respond res StatusMethodNotAllowed [])
      else discovery_decode lib n res req)"

text \<open>
  What a request leads to: the gateway's state, the calls of Respond, and the request
  handed to a reverse proxy, if one is.
\<close>

record 't Handled =
  novis :: "'t Novis"
  response :: ResponseWriter
  forwarded :: "(ReverseProxy \<times> Request) option"

definition proxyRequest ::
  "'t Library \<Rightarrow> string list \<Rightarrow> 't Novis \<Rightarrow> Request \<Rightarrow> panic + 't Handled" where
  "proxyRequest lib ks n req =
     (let paths = Trim (URL_Path req) ''/'' in
      if length paths > 0 then
        (let sn = findServiceInMap lib ks paths in
         if paths = strings_ToLower lib (DiscoveryURL (opts n)) then
           (case discovery lib n [] req of
              (err, n1, res) \<Rightarrow> Inr \<lparr>novis = n1, response = res, forwarded = None\<rparr>)
         else
           (case services n sn of
              Some s \<Rightarrow>
                if Status s \<noteq> UP then
                  Inr \<lparr>novis = n, response = Respond [] StatusNotFound [], forwarded = None\<rparr>
                else
                  (case url_Parse lib (Host s) of
                     None \<Rightarrow>
                       Inr \<lparr>novis = n, response = Respond [] StatusBadGateway [],
                            forwarded = None\<rparr>
                   | Some sURL \<Rightarrow>
                       (let req1 = req\<lparr>URL_Path := Replace (URL_Path req) (''/'' @ Path s) [] 1\<rparr>;
                            req2 = req1\<lparr>RequestURI :=
                                           Replace (RequestURI req1) (''/'' @ Path s) [] 1\<rparr>;
                            req3 = req2\<lparr>Req_Host := URL_Host sURL\<rparr>
                        in case reverseProxy s of
                             None \<Rightarrow> Inl NilPointerDereference
                           | Some rp \<Rightarrow>
                               Inr \<lparr>novis = n, response = [], forwarded = Some (rp, req3)\<rparr>))
            | None \<Rightarrow>
                Inr \<lparr>novis = n, response = Respond [] StatusNotFound [], forwarded = None\<rparr>))
      else Inr \<lparr>novis = n, response = Respond [] StatusOK [], forwarded = None\<rparr>)"

subsection \<open>Example inputs\<close>

text \<open>
  Concrete arguments at which the theorems below are evaluated. The strings of the
  examples are ASCII, and the example library is what the Go functions do on them:
  \<^verbatim>\<open>strings.ToLower\<close> maps the letters A to Z of an ASCII string and keeps its other
  bytes; the parser accepts addresses starting with \<^verbatim>\<open>http://\<close> and rejects an address
  without a scheme; the stored text is identified with the map of services it decodes
  to, with the exported fields only (or is text that Unmarshal rejects); the decoder
  accepts one registration body; one address of the network accepts connections.
\<close>

definition ascii_lower :: "char \<Rightarrow> char" where
  "ascii_lower c =
     (case map_of (zip ''ABCDEFGHIJKLMNOPQRSTUVWXYZ'' ''abcdefghijklmnopqrstuvwxyz'') c of
        None \<Rightarrow> c
      | Some d \<Rightarrow> d)"

definition ascii_ToLower :: "string \<Rightarrow> string" where
  "ascii_ToLower s = map ascii_lower s"

definition example_Parse :: "string \<Rightarrow> URL option" where
  "example_Parse h =
     (if HasPrefix h ''http://'' then Some \<lparr>URL_Scheme = ''http'', URL_Host = drop 7 h\<rparr>
      else None)"

datatype Stored = Malformed | Encoded "string \<Rightarrow> Service option"

definition example_Marshal :: "(string \<Rightarrow> Service option) \<Rightarrow> Stored" where
  "example_Marshal m = Encoded (\<lambda>k. map_option exported (m k))"

definition example_Unmarshal :: "Stored \<Rightarrow> (string \<Rightarrow> Service option) option" where
  "example_Unmarshal v = (case v of Malformed \<Rightarrow> None | Encoded m \<Rightarrow> Some m)"

definition billing_body :: string where
  "billing_body = ''{host: http://127.0.0.1:9002, path: billing, healthCheckURL: 127.0.0.1:9002}''"

definition billing :: Service where
  "billing = \<lparr>Host = ''http://127.0.0.1:9002'', Path = ''billing'', Status = [],
              HealthCheckURL = ''127.0.0.1:9002'', reverseProxy = None\<rparr>"

definition example_Decode :: "string \<Rightarrow> Service option" where
  "example_Decode body = (if body = billing_body then Some billing else None)"

definition example_dial :: "string \<Rightarrow> string \<Rightarrow> nat \<Rightarrow> bool" where
  "example_dial network address seconds = (network = ''tcp'' \<and> address = ''127.0.0.1:9001'')"

definition example_lib :: "Stored Library" where
  "example_lib =
     \<lparr>strings_ToLower = ascii_ToLower, url_Parse = example_Parse,
      json_Marshal = example_Marshal, json_Unmarshal = example_Unmarshal,
      json_Decode = example_Decode, net_DialTimeout = example_dial\<rparr>"

definition orders_proxy :: ReverseProxy where
  "orders_proxy = \<lparr>URL_Scheme = ''http'', URL_Host = ''127.0.0.1:9001''\<rparr>"

definition orders :: Service where
  "orders = \<lparr>Host = ''http://127.0.0.1:9001'', Path = ''orders'', Status = UP,
             HealthCheckURL = ''127.0.0.1:9001'', reverseProxy = Some orders_proxy\<rparr>"

definition empty_store :: "Stored Storage" where
  "empty_store = \<lparr>contents = Map.empty, online = True\<rparr>"

definition default_opts :: "Stored ProxyOptions" where
  "default_opts = \<lparr>Timeout = 10, DiscoveryURL = ''discovery'', StorageOpts = Some empty_store\<rparr>"

definition gateway :: "Stored Novis" where
  "gateway = \<lparr>services = [''orders'' \<mapsto> orders], storage = empty_store, opts = default_opts\<rparr>"

definition offline_gateway :: "Stored Novis" where
  "offline_gateway = gateway\<lparr>storage := \<lparr>contents = Map.empty, online = False\<rparr>\<rparr>"

definition discovery_named :: "Stored Novis" where
  "discovery_named = gateway\<lparr>services := [''discovery'' \<mapsto> orders\<lparr>Path := ''discovery''\<rparr>]\<rparr>"

definition nested_discovery :: "Stored Novis" where
  "nested_discovery = gateway\<lparr>opts := default_opts\<lparr>DiscoveryURL := ''api/discovery''\<rparr>\<rparr>"

definition capital_discovery :: "Stored Novis" where
  "capital_discovery = gateway\<lparr>opts := default_opts\<lparr>DiscoveryURL := ''Discovery''\<rparr>\<rparr>"

definition lookup :: Request where
  "lookup = \<lparr>Method = ''GET'', URL_Path = ''/orders/123'', RequestURI = ''/orders/123?page=2'',
             Req_Host = ''gateway'', Body = []\<rparr>"

definition registration :: Request where
  "registration = \<lparr>Method = ''POST'', URL_Path = ''/discovery'', RequestURI = ''/discovery'',
                   Req_Host = ''gateway'', Body = billing_body\<rparr>"

definition billing_registered :: Service where
  "billing_registered =
     billing\<lparr>Status := CHECKING,
             reverseProxy := Some \<lparr>URL_Scheme = ''http'', URL_Host = ''127.0.0.1:9002''\<rparr>\<rparr>"

definition snapshot_store :: "Stored Storage" where
  "snapshot_store =
     \<lparr>contents = [svcKey \<mapsto> example_Marshal [''orders'' \<mapsto> orders]], online = True\<rparr>"

definition monitored :: "Stored Novis" where
  "monitored =
     gateway\<lparr>services := [''orders'' \<mapsto> orders\<lparr>Status := CHECKING\<rparr>,
                           ''billing'' \<mapsto> billing\<lparr>Status := PAUSE\<rparr>]\<rparr>"

definition two_services :: "Stored Novis" where
  "two_services =
     gateway\<lparr>services := [''orders'' \<mapsto> orders, ''billing'' \<mapsto> billing_registered]\<rparr>"

definition overlapping :: "Stored Novis" where
  "overlapping =
     gateway\<lparr>services := [''orders'' \<mapsto> orders, ''ord'' \<mapsto> orders\<lparr>Path := ''ord''\<rparr>]\<rparr>"

text \<open>
  A configuration file that names the path of its service with a capital letter, and the
  gateway that NewFromConfig makes of it on an empty store.
\<close>

definition capital_config :: Configuration where
  "capital_config =
     \<lparr>Port = 8080, Server_Timeout = 10, Server_Discovery_Path = ''discovery'',
      Server_Services = [\<lparr>Host = ''http://127.0.0.1:9001'', Path = ''Orders'', Status = [],
                          HealthCheckURL = ''127.0.0.1:9001'', reverseProxy = None\<rparr>]\<rparr>"

definition seeded_service :: Service where
  "seeded_service = orders\<lparr>Path := ''Orders'', Status := CHECKING\<rparr>"

definition seeded :: "Stored Novis" where
  "seeded =
     \<lparr>services = [''Orders'' \<mapsto> seeded_service],
      storage = \<lparr>contents = [svcKey \<mapsto> example_Marshal [''Orders'' \<mapsto> seeded_service]],
                 online = True\<rparr>,
      opts = default_opts\<rparr>"

text \<open>A service whose host has no scheme, which \<^verbatim>\<open>url.Parse\<close> rejects.\<close>

definition unparsed :: Service where
  "unparsed = billing\<lparr>Host := '':9002''\<rparr>"

section \<open>Properties\<close>

subsection \<open>Evaluation and basic facts\<close>

lemmas example_defs =
  example_lib_def ascii_ToLower_def ascii_lower_def example_Parse_def example_Marshal_def
  example_Unmarshal_def example_Decode_def example_dial_def exported_def
  gateway_def orders_def orders_proxy_def empty_store_def default_opts_def
  billing_def billing_body_def offline_gateway_def discovery_named_def nested_discovery_def
  capital_discovery_def lookup_def registration_def billing_registered_def snapshot_store_def
  monitored_def two_services_def overlapping_def capital_config_def seeded_service_def
  seeded_def unparsed_def

lemmas strings_defs = Trim_def HasPrefix_def Split_def Replace_def

lemmas constant_defs =
  UP_def DOWN_def PAUSE_def CHECKING_def svcKey_def StatusOK_def StatusBadRequest_def
  StatusNotFound_def StatusMethodNotAllowed_def StatusBadGateway_def

lemma example_ToLower: "strings_ToLower example_lib s = map ascii_lower s"
  by (simp add: example_lib_def ascii_ToLower_def)

lemma example_ToLower_Nil_iff: "(strings_ToLower example_lib s = []) = (s = [])"
  by (simp add: example_ToLower)

lemma split_from_not_Nil: "split_from sep acc s \<noteq> []"
  by (induction s arbitrary: acc) auto

lemma Split_not_Nil: "Split s sep \<noteq> []"
  by (simp add: Split_def split_from_not_Nil)





lemma removeEmptyStr_first:
  assumes "Split p sep ! 0 \<noteq> []"
  shows "removeEmptyStr (Split p sep) ! 0 = Split p sep ! 0"
proof -
  obtain x xs where "Split p sep = x # xs"
    using Split_not_Nil [of p sep] by (cases "Split p sep") auto
  then show ?thesis using assms by simp
qed

lemma services_UpdateStorage: "services (snd (UpdateStorage lib n)) = services n"
  by (simp add: UpdateStorage_def split: sum.splits)

lemma UpdateStorage_fails_unchanged:
  "fst (UpdateStorage lib n) = Some e \<Longrightarrow> snd (UpdateStorage lib n) = n"
  by (auto simp: UpdateStorage_def split: sum.splits)

lemma findServiceInMap_cases:
  "findServiceInMap lib ks p = [] \<or> findServiceInMap lib ks p \<in> set ks"
  by (induction ks) auto

lemma findServiceInMap_no_match:
  "(\<And>k. k \<in> set ks \<Longrightarrow> \<not> HasPrefix (strings_ToLower lib p) (strings_ToLower lib k)) \<Longrightarrow>
   findServiceInMap lib ks p = []"
  by (induction ks) auto

subsection \<open>The router\<close>







subsection \<open>The discovery path\<close>

text \<open>
  C8, evaluated where the code leaves the claim. The discovery path is configured as
  discovery; the trimmed, lower-cased path of \<^verbatim>\<open>POST /Discovery\<close> equals it. The router
  compares the trimmed path as it is with the lower-cased DiscoveryURL, finds them
  different, does not call the discovery handler and answers 404; the same request to
  \<^verbatim>\<open>/discovery\<close> registers the service.
\<close>

theorem proxyRequest_discovery_case_sensitive:
  "strings_ToLower example_lib (Trim (URL_Path (registration\<lparr>URL_Path := ''/Discovery''\<rparr>)) ''/'')
     = DiscoveryURL (opts gateway)
   \<and> proxyRequest example_lib [''orders''] gateway (registration\<lparr>URL_Path := ''/Discovery''\<rparr>) =
       Inr \<lparr>novis = gateway, response = [(StatusNotFound, [])], forwarded = None\<rparr>
   \<and> proxyRequest example_lib [''orders''] gateway registration =
       Inr \<lparr>novis = snd (AddService example_lib gateway billing_registered), response = [],
            forwarded = None\<rparr>
   \<and> services (snd (AddService example_lib gateway billing_registered)) ''billing''
       = Some billing_registered"
  by (simp add: proxyRequest_def discovery_def discovery_decode_def AddService_def
        UpdateStorage_def storage_Set_def Respond_def Let_def example_defs strings_defs
        constant_defs)

text \<open>
  C5, evaluated where the code leaves the claim. The discovery path is configured as
  \<^verbatim>\<open>api/discovery\<close>, and the request is \<^verbatim>\<open>GET /api/discovery\<close> with a registration
  body: two segments and not a POST. discovery writes 404 and, having no return in that
  branch, goes on: it decodes the body and adds the service to the registry. The method
  is not looked at.
\<close>

theorem discovery_404_not_aborted:
  "removeEmptyStr (Split ''/api/discovery'' CHR ''/'') = [''api'', ''discovery'']
   \<and> proxyRequest example_lib [''orders''] nested_discovery
        (registration\<lparr>Method := ''GET'', URL_Path := ''/api/discovery''\<rparr>) =
       Inr \<lparr>novis = snd (AddService example_lib nested_discovery billing_registered),
            response = [(StatusNotFound, [])], forwarded = None\<rparr>
   \<and> services nested_discovery ''billing'' = None
   \<and> services (snd (AddService example_lib nested_discovery billing_registered)) ''billing''
       = Some billing_registered"
  by (simp add: proxyRequest_def discovery_def discovery_decode_def AddService_def
        UpdateStorage_def storage_Set_def Respond_def Let_def example_defs strings_defs
        constant_defs)

subsection \<open>The registry\<close>

text \<open>
  C9. AddService of a service whose trimmed path is not empty, when the snapshot write
  that it triggers fails with an error \<open>e\<close>: AddService returns no error, and the
  gateway it leaves is the one with the service stored under the lower-cased trimmed
  path; the insert is not undone. This holds for every library.
\<close>

theorem AddService_failed_snapshot_keeps_insert:
  assumes nonempty: "Trim (Path service) ''/'' \<noteq> []"
      and fails: "fst (UpdateStorage lib
                    (n\<lparr>services :=
                         (services n)(strings_ToLower lib (Trim (Path service) ''/'') \<mapsto> service)\<rparr>))
                  = Some e"
    shows "AddService lib n service =
             (None, n\<lparr>services :=
                         (services n)(strings_ToLower lib (Trim (Path service) ''/'') \<mapsto> service)\<rparr>)
           \<and> services (snd (AddService lib n service))
                (strings_ToLower lib (Trim (Path service) ''/''))
               = Some service"
proof -
  let ?n1 = "n\<lparr>services :=
                 (services n)(strings_ToLower lib (Trim (Path service) ''/'') \<mapsto> service)\<rparr>"
  have "snd (UpdateStorage lib ?n1) = ?n1"
    using fails by (rule UpdateStorage_fails_unchanged)
  then have "AddService lib n service = (None, ?n1)"
    using nonempty by (simp add: AddService_def Let_def split_beta)
  then show ?thesis by simp
qed

text \<open>The theorem at a gateway whose store is unreachable, adding \<^verbatim>\<open>/Billing/\<close>.\<close>

theorem AddService_failed_snapshot_keeps_insert_witness:
  "Trim (Path (billing\<lparr>Path := ''/Billing/''\<rparr>)) ''/'' \<noteq> []
   \<and> fst (UpdateStorage example_lib
        (offline_gateway\<lparr>services :=
           (services offline_gateway)(''billing'' \<mapsto> billing\<lparr>Path := ''/Billing/''\<rparr>)\<rparr>))
      = Some StorageError
   \<and> AddService example_lib offline_gateway (billing\<lparr>Path := ''/Billing/''\<rparr>) =
       (None, offline_gateway\<lparr>services :=
                (services offline_gateway)(''billing'' \<mapsto> billing\<lparr>Path := ''/Billing/''\<rparr>)\<rparr>)
   \<and> services (snd (AddService example_lib offline_gateway (billing\<lparr>Path := ''/Billing/''\<rparr>)))
        ''billing''
       = Some (billing\<lparr>Path := ''/Billing/''\<rparr>)"
proof -
  let ?s = "billing\<lparr>Path := ''/Billing/''\<rparr>"
  have key: "strings_ToLower example_lib (Trim (Path ?s) ''/'') = ''billing''"
    by (simp add: strings_defs example_ToLower ascii_lower_def)
  have h1: "Trim (Path ?s) ''/'' \<noteq> []"
    by (simp add: strings_defs)
  have h2: "fst (UpdateStorage example_lib
              (offline_gateway\<lparr>services :=
                 (services offline_gateway)
                   (strings_ToLower example_lib (Trim (Path ?s) ''/'') \<mapsto> ?s)\<rparr>))
            = Some StorageError"
    by (simp add: UpdateStorage_def storage_Set_def offline_gateway_def)
  show ?thesis
    using h1 h2 AddService_failed_snapshot_keeps_insert [OF h1 h2]
    unfolding key by blast
qed

text \<open>
  C10. PauseService and ResumeService return exactly when the first segment of the
  path, split at \<^verbatim>\<open>/\<close> and lower-cased, is a key of the registry. When it is not, both
  dereference the nil pointer that the map yields, while RemoveService returns no error
  and leaves the gateway as it is. This holds for every library.
\<close>

theorem pause_resume_nil_pointer:
  "((\<exists>n1. PauseService lib n service = Inr n1)
      = (services n (strings_ToLower lib (Split (Path service) CHR ''/'' ! 0)) \<noteq> None))
   \<and> ((\<exists>n1. ResumeService lib n service = Inr n1)
      = (services n (strings_ToLower lib (Split (Path service) CHR ''/'' ! 0)) \<noteq> None))
   \<and> (services n (strings_ToLower lib (Split (Path service) CHR ''/'' ! 0)) = None \<longrightarrow>
        PauseService lib n service = Inl NilPointerDereference
        \<and> ResumeService lib n service = Inl NilPointerDereference
        \<and> RemoveService lib n service = (None, n))"
  by (auto simp: PauseService_def ResumeService_def RemoveService_def SetStatus_at_def
        Split_not_Nil Let_def split: option.splits)

text \<open>The theorem at the gateway with the one service orders, for the path billing.\<close>

theorem pause_resume_nil_pointer_witness:
  "services gateway (strings_ToLower example_lib (Split (Path billing) CHR ''/'' ! 0)) = None
   \<and> PauseService example_lib gateway billing = Inl NilPointerDereference
   \<and> ResumeService example_lib gateway billing = Inl NilPointerDereference
   \<and> RemoveService example_lib gateway billing = (None, gateway)"
proof -
  have absent:
    "services gateway (strings_ToLower example_lib (Split (Path billing) CHR ''/'' ! 0)) = None"
    by (simp add: gateway_def billing_def strings_defs example_ToLower ascii_lower_def)
  show ?thesis
    using absent pause_resume_nil_pointer [of example_lib gateway billing] by blast
qed

subsection \<open>The initial status\<close>

text \<open>
  C7, evaluated where the code leaves the claim. The store holds a snapshot with the
  service orders. LoadFromStorage into an empty registry inserts it with the empty
  status, Go's zero value, which is not CHECKING: the Service literal of LoadFromStorage
  sets no Status.
\<close>

theorem LoadFromStorage_status_empty:
  "storage_Get snapshot_store svcKey = Inr (json_Marshal example_lib [''orders'' \<mapsto> orders])
   \<and> fst (LoadFromStorage example_lib [''orders'']
          \<lparr>services = Map.empty, storage = snapshot_store, opts = default_opts\<rparr>) = None
   \<and> services (snd (LoadFromStorage example_lib [''orders'']
          \<lparr>services = Map.empty, storage = snapshot_store, opts = default_opts\<rparr>)) ''orders''
       = Some (orders\<lparr>Status := []\<rparr>)
   \<and> Status (orders\<lparr>Status := []\<rparr>) \<noteq> CHECKING"
  by (simp add: LoadFromStorage_def storage_Get_def range_values_def List.map_filter_def
        AddService_def UpdateStorage_def storage_Set_def Let_def example_defs strings_defs
        constant_defs)

subsection \<open>Removing a service\<close>

text \<open>
  C6, as amended. For a path whose first segment (split at \<^verbatim>\<open>/\<close>) is not empty, that
  segment is the first non-empty one, and with \<open>lp\<close> for it lower-cased: when \<open>lp\<close> is
  not a key, RemoveService returns no error and leaves the gateway as it is; when it
  is, the result is that of UpdateStorage on the registry without the entry. Afterwards
  \<open>lp\<close> is not a key, findServiceInMap never yields \<open>lp\<close>, in any order of the keys and
  for any path, and it yields the empty string for a path of which no other key of the
  registry is, lower-cased, a prefix. This holds for every library whose ToLower gives
  the empty string for the empty string only.
\<close>

theorem RemoveService_first_segment:
  assumes lower_empty: "\<forall>t. (strings_ToLower lib t = []) = (t = [])"
      and segment: "Split (Path service) CHR ''/'' ! 0 \<noteq> []"
  shows "removeEmptyStr (Split (Path service) CHR ''/'') ! 0 = Split (Path service) CHR ''/'' ! 0
    \<and> (let lp = strings_ToLower lib (Split (Path service) CHR ''/'' ! 0) in
        (if services n lp = None then RemoveService lib n service = (None, n)
         else RemoveService lib n service =
                UpdateStorage lib (n\<lparr>services := (services n)(lp := None)\<rparr>))
        \<and> services (snd (RemoveService lib n service)) = (services n)(lp := None)
        \<and> (\<forall>ks q. range_order (services (snd (RemoveService lib n service))) ks
              \<longrightarrow> findServiceInMap lib ks q \<noteq> lp)
        \<and> (\<forall>ks q. range_order (services (snd (RemoveService lib n service))) ks
                \<and> (\<forall>k \<in> dom (services n) - {lp}.
                      \<not> HasPrefix (strings_ToLower lib q) (strings_ToLower lib k))
              \<longrightarrow> findServiceInMap lib ks q = []))"
proof -
  define lp where "lp = strings_ToLower lib (Split (Path service) CHR ''/'' ! 0)"
  have lp_nonempty: "lp \<noteq> []"
    using segment lower_empty by (simp add: lp_def)
  have absent: "services n lp = None \<Longrightarrow> RemoveService lib n service = (None, n)"
    by (simp add: RemoveService_def Let_def Split_not_Nil lp_def)
  have present: "services n lp \<noteq> None \<Longrightarrow>
      RemoveService lib n service = UpdateStorage lib (n\<lparr>services := (services n)(lp := None)\<rparr>)"
    by (auto simp: RemoveService_def Let_def Split_not_Nil lp_def)
  have after: "services (snd (RemoveService lib n service)) = (services n)(lp := None)"
  proof (cases "services n lp = None")
    case True
    then show ?thesis using absent by auto
  next
    case False
    then show ?thesis using present by (simp add: services_UpdateStorage)
  qed
  have never: "findServiceInMap lib ks q \<noteq> lp"
    if "range_order (services (snd (RemoveService lib n service))) ks" for ks q
  proof -
    have "lp \<notin> set ks"
      using that after by (simp add: range_order_def)
    then show ?thesis
      using findServiceInMap_cases [of lib ks q] lp_nonempty by auto
  qed
  have none: "findServiceInMap lib ks q = []"
    if "range_order (services (snd (RemoveService lib n service))) ks"
      and "\<forall>k \<in> dom (services n) - {lp}.
             \<not> HasPrefix (strings_ToLower lib q) (strings_ToLower lib k)" for ks q
  proof (rule findServiceInMap_no_match)
    fix k assume "k \<in> set ks"
    then have "k \<in> dom (services n) - {lp}"
      using that(1) after by (auto simp: range_order_def split: if_splits)
    then show "\<not> HasPrefix (strings_ToLower lib q) (strings_ToLower lib k)"
      using that(2) by blast
  qed
  show ?thesis
    using removeEmptyStr_first [OF segment] absent present after never none
    unfolding Let_def lp_def [symmetric] by auto
qed

text \<open>
  The theorem at the gateway with the services orders and billing, removing the path
  \<^verbatim>\<open>Orders/archive\<close>: the entry orders goes, and a lookup of \<^verbatim>\<open>orders/123\<close> among the
  keys that are left finds nothing.
\<close>

theorem RemoveService_first_segment_witness:
  "(\<forall>t. (strings_ToLower example_lib t = []) = (t = []))
   \<and> Split (Path (orders\<lparr>Path := ''Orders/archive''\<rparr>)) CHR ''/'' ! 0 \<noteq> []
   \<and> removeEmptyStr (Split ''Orders/archive'' CHR ''/'') ! 0 = ''Orders''
   \<and> services two_services ''orders'' = Some orders
   \<and> RemoveService example_lib two_services (orders\<lparr>Path := ''Orders/archive''\<rparr>) =
       UpdateStorage example_lib
         (two_services\<lparr>services := (services two_services)(''orders'' := None)\<rparr>)
   \<and> services (snd (RemoveService example_lib two_services (orders\<lparr>Path := ''Orders/archive''\<rparr>)))
        ''orders''
       = None
   \<and> range_order
        (services (snd (RemoveService example_lib two_services
                          (orders\<lparr>Path := ''Orders/archive''\<rparr>))))
        [''billing'']
   \<and> \<not> HasPrefix (strings_ToLower example_lib ''orders/123'')
          (strings_ToLower example_lib ''billing'')
   \<and> findServiceInMap example_lib [''billing''] ''orders/123'' \<noteq> ''orders''
   \<and> findServiceInMap example_lib [''billing''] ''orders/123'' = []"
proof -
  let ?hint = "orders\<lparr>Path := ''Orders/archive''\<rparr>"
  have h0: "\<forall>t. (strings_ToLower example_lib t = []) = (t = [])"
    by (simp add: example_ToLower_Nil_iff)
  have first: "Split (Path ?hint) CHR ''/'' ! 0 = ''Orders''"
    by (simp add: strings_defs)
  have key: "strings_ToLower example_lib (Split (Path ?hint) CHR ''/'' ! 0) = ''orders''"
    by (simp add: strings_defs example_ToLower ascii_lower_def)
  have h1: "Split (Path ?hint) CHR ''/'' ! 0 \<noteq> []"
    by (simp add: strings_defs)
  have h2: "services two_services ''orders'' = Some orders"
    by (simp add: two_services_def)
  have keys: "dom (services two_services) - {''orders''} = {''billing''}"
    by (auto simp: two_services_def split: if_splits)
  have h3: "\<not> HasPrefix (strings_ToLower example_lib ''orders/123'')
               (strings_ToLower example_lib ''billing'')"
    by (simp add: strings_defs example_ToLower ascii_lower_def)
  note main = RemoveService_first_segment [OF h0 h1, of two_services, unfolded Let_def key]
  have after: "services (snd (RemoveService example_lib two_services ?hint))
                 = (services two_services)(''orders'' := None)"
    using main by blast
  have h4: "range_order (services (snd (RemoveService example_lib two_services ?hint)))
              [''billing'']"
    unfolding after range_order_def using keys by simp
  have h5: "\<forall>k \<in> dom (services two_services) - {''orders''}.
              \<not> HasPrefix (strings_ToLower example_lib ''orders/123'')
                   (strings_ToLower example_lib k)"
    unfolding keys using h3 by simp
  have r1: "removeEmptyStr (Split ''Orders/archive'' CHR ''/'') ! 0 = ''Orders''"
    using main first by simp
  have r2: "RemoveService example_lib two_services ?hint =
              UpdateStorage example_lib
                (two_services\<lparr>services := (services two_services)(''orders'' := None)\<rparr>)"
    using main h2 by simp
  have r3: "services (snd (RemoveService example_lib two_services ?hint)) ''orders'' = None"
    using after by simp
  have r4: "findServiceInMap example_lib [''billing''] ''orders/123'' \<noteq> ''orders''"
    using main h4 by blast
  have r5: "findServiceInMap example_lib [''billing''] ''orders/123'' = []"
    using main h4 h5 by blast
  show ?thesis
    using h0 h1 r1 h2 r2 r3 h4 h3 r4 r5 by blast
qed

text \<open>
  C6 as it is stated fails. With the keys orders and ord registered, removing orders
  leaves ord, which is a prefix of orders: the lookup for the removed prefix yields ord,
  not the empty string. And for the path \<^verbatim>\<open>/orders\<close> the first non-empty segment is
  orders, but RemoveService takes the first segment, which is empty: nothing is removed
  and the lookup still yields orders.
\<close>

theorem RemoveService_first_segment_counterexample:
  "services overlapping ''orders'' = Some orders
   \<and> RemoveService example_lib overlapping orders =
        UpdateStorage example_lib
          (overlapping\<lparr>services := (services overlapping)(''orders'' := None)\<rparr>)
   \<and> services (snd (RemoveService example_lib overlapping orders)) ''orders'' = None
   \<and> range_order (services (snd (RemoveService example_lib overlapping orders))) [''ord'']
   \<and> findServiceInMap example_lib [''ord''] ''orders'' = ''ord''
   \<and> removeEmptyStr (Split ''/orders'' CHR ''/'') ! 0 = ''orders''
   \<and> RemoveService example_lib gateway (orders\<lparr>Path := ''/orders''\<rparr>) = (None, gateway)
   \<and> services gateway ''orders'' = Some orders
   \<and> findServiceInMap example_lib [''orders''] ''orders'' = ''orders''"
  by (simp add: RemoveService_def UpdateStorage_def storage_Set_def range_order_def Let_def
        example_defs strings_defs constant_defs)

subsection \<open>The health check\<close>

lemma healthCheck_service_other:
  assumes "healthCheck_service lib n k s = (evs, n1)" and "j \<noteq> k"
  shows "services n1 j = services n j" and "filter (\<lambda>e. event_key e = j) evs = []"
  using assms
  by (auto simp: healthCheck_service_def Let_def split_beta services_UpdateStorage
      split: if_splits)

lemma healthCheck_service_self:
  assumes "healthCheck_service lib n k s = (evs, n1)" and "services n k = Some s"
  shows "services n1 k =
           Some (if Status s = PAUSE then s
                 else s\<lparr>Status := isServiceAlive lib (HealthCheckURL s)\<rparr>)"
    and "evs = (if Status s = PAUSE then []
                else if isServiceAlive lib (HealthCheckURL s) \<noteq> Status s
                  then [Dialed k (HealthCheckURL s), Snapshot k]
                else [Dialed k (HealthCheckURL s)])"
  using assms
  by (auto simp: healthCheck_service_def Let_def split_beta services_UpdateStorage
      split: if_splits)

lemma healthCheck_service_synced:
  assumes "healthCheck_service lib n k s = (evs, n1)" and "online (storage n)"
  shows "online (storage n1)"
    and "Snapshot j \<in> set evs
           \<or> contents (storage n) svcKey = Some (json_Marshal lib (services n))
         \<Longrightarrow> contents (storage n1) svcKey = Some (json_Marshal lib (services n1))"
  using assms
  by (auto simp: healthCheck_service_def Let_def UpdateStorage_def storage_Set_def
      split: if_splits)

lemma healthCheck_tick_other:
  assumes "healthCheck_tick lib ks n = (evs, n1)" and "j \<notin> set ks"
  shows "services n1 j = services n j \<and> filter (\<lambda>e. event_key e = j) evs = []"
  using assms
proof (induction ks arbitrary: n evs n1)
  case Nil
  then show ?case by simp
next
  case (Cons k ks)
  show ?case
  proof (cases "services n k")
    case None
    then show ?thesis using Cons by simp
  next
    case (Some s)
    obtain evs1 n2 where visit: "healthCheck_service lib n k s = (evs1, n2)"
      by (cases "healthCheck_service lib n k s")
    obtain evs2 n3 where tail: "healthCheck_tick lib ks n2 = (evs2, n3)"
      by (cases "healthCheck_tick lib ks n2")
    have result: "evs = evs1 @ evs2" "n1 = n3"
      using Cons.prems(1) Some visit tail by simp_all
    have "j \<noteq> k" "j \<notin> set ks"
      using Cons.prems(2) by simp_all
    then show ?thesis
      using healthCheck_service_other [OF visit, of j] Cons.IH [OF tail] result by simp
  qed
qed

lemma healthCheck_tick_synced:
  assumes "healthCheck_tick lib ks n = (evs, n1)" and "online (storage n)"
  shows "online (storage n1)
         \<and> ((\<exists>j. Snapshot j \<in> set evs)
              \<or> contents (storage n) svcKey = Some (json_Marshal lib (services n))
            \<longrightarrow> contents (storage n1) svcKey = Some (json_Marshal lib (services n1)))"
  using assms
proof (induction ks arbitrary: n evs n1)
  case Nil
  then show ?case by simp
next
  case (Cons k ks)
  show ?case
  proof (cases "services n k")
    case None
    then show ?thesis using Cons by simp
  next
    case (Some s)
    obtain evs1 n2 where visit: "healthCheck_service lib n k s = (evs1, n2)"
      by (cases "healthCheck_service lib n k s")
    obtain evs2 n3 where tail: "healthCheck_tick lib ks n2 = (evs2, n3)"
      by (cases "healthCheck_tick lib ks n2")
    have result: "evs = evs1 @ evs2" "n1 = n3"
      using Cons.prems(1) Some visit tail by simp_all
    have online2: "online (storage n2)"
      using healthCheck_service_synced(1) [OF visit Cons.prems(2)] .
    show ?thesis
      using Cons.IH [OF tail online2] healthCheck_service_synced(2) [OF visit Cons.prems(2)]
        result
      by auto
  qed
qed

lemma healthCheck_tick_visited:
  assumes "distinct ks" and "k \<in> set ks" and "services n k = Some s"
      and "healthCheck_tick lib ks n = (evs, n1)"
  shows "services n1 k =
           Some (if Status s = PAUSE then s
                 else s\<lparr>Status := isServiceAlive lib (HealthCheckURL s)\<rparr>)
       \<and> filter (\<lambda>e. event_key e = k) evs =
           (if Status s = PAUSE then []
            else if isServiceAlive lib (HealthCheckURL s) \<noteq> Status s
              then [Dialed k (HealthCheckURL s), Snapshot k]
            else [Dialed k (HealthCheckURL s)])"
  using assms
proof (induction ks arbitrary: n evs n1)
  case Nil
  then show ?case by simp
next
  case (Cons j ks)
  show ?case
  proof (cases "j = k")
    case True
    obtain evs1 n2 where visit: "healthCheck_service lib n k s = (evs1, n2)"
      by (cases "healthCheck_service lib n k s")
    obtain evs2 n3 where tail: "healthCheck_tick lib ks n2 = (evs2, n3)"
      by (cases "healthCheck_tick lib ks n2")
    have result: "evs = evs1 @ evs2" "n1 = n3"
      using Cons.prems True visit tail by simp_all
    have "k \<notin> set ks"
      using Cons.prems(1) True by simp
    then have rest: "services n3 k = services n2 k" "filter (\<lambda>e. event_key e = k) evs2 = []"
      using healthCheck_tick_other [OF tail] by simp_all
    have own: "filter (\<lambda>e. event_key e = k) evs1 = evs1"
      using healthCheck_service_self(2) [OF visit Cons.prems(3)] by simp
    show ?thesis
      using healthCheck_service_self [OF visit Cons.prems(3)] rest result own by simp
  next
    case False
    then have later: "k \<in> set ks" "distinct ks"
      using Cons.prems by simp_all
    show ?thesis
    proof (cases "services n j")
      case None
      then have "healthCheck_tick lib ks n = (evs, n1)"
        using Cons.prems(4) by simp
      then show ?thesis
        using Cons.IH [OF later(2) later(1) Cons.prems(3)] by simp
    next
      case (Some t)
      obtain evs1 n2 where visit: "healthCheck_service lib n j t = (evs1, n2)"
        by (cases "healthCheck_service lib n j t")
      obtain evs2 n3 where tail: "healthCheck_tick lib ks n2 = (evs2, n3)"
        by (cases "healthCheck_tick lib ks n2")
      have result: "evs = evs1 @ evs2" "n1 = n3"
        using Cons.prems(4) Some visit tail by simp_all
      have kept: "services n2 k = Some s" "filter (\<lambda>e. event_key e = k) evs1 = []"
        using healthCheck_service_other [OF visit, of k] False Cons.prems(3) by simp_all
      show ?thesis
        using Cons.IH [OF later(2) later(1) kept(1) tail] kept(2) result by simp
    qed
  qed
qed

text \<open>
  C4. One tick of the health check, in any order \<open>ks\<close> in which \<^verbatim>\<open>range\<close> may yield the
  keys, for every entry \<open>k\<close> with service \<open>s\<close> of the registry. The probe dials the
  HealthCheckURL on tcp with a timeout of 3 seconds and gives UP when the connection is
  made, DOWN when it is not. When the status of \<open>s\<close> is PAUSE, the entry is as before
  and the tick reports nothing for \<open>k\<close>: no dial, no snapshot. Otherwise the entry is
  \<open>s\<close> with the status the probe gives, and the tick reports for \<open>k\<close> the dial of the
  HealthCheckURL, followed by one call of UpdateStorage exactly when that status is not
  the one stored before. When that call is made and the store is reachable, the store
  holds the text of the whole registry as the tick leaves it.
\<close>

theorem healthCheck_tick_each_service:
  assumes order: "range_order (services n) ks"
      and entry: "services n k = Some s"
      and tick: "healthCheck_tick lib ks n = (evs, n1)"
    shows "isServiceAlive lib (HealthCheckURL s)
             = (if net_DialTimeout lib ''tcp'' (HealthCheckURL s) 3 then UP else DOWN)
         \<and> services n1 k =
             Some (if Status s = PAUSE then s
                   else s\<lparr>Status := isServiceAlive lib (HealthCheckURL s)\<rparr>)
         \<and> filter (\<lambda>e. event_key e = k) evs =
             (if Status s = PAUSE then []
              else if isServiceAlive lib (HealthCheckURL s) \<noteq> Status s
                then [Dialed k (HealthCheckURL s), Snapshot k]
              else [Dialed k (HealthCheckURL s)])
         \<and> (online (storage n) \<and> Snapshot k \<in> set evs \<longrightarrow>
              contents (storage n1) svcKey = Some (json_Marshal lib (services n1)))"
proof -
  have "distinct ks" "k \<in> set ks"
    using order entry by (auto simp: range_order_def)
  then show ?thesis
    using healthCheck_tick_visited [OF _ _ entry tick] healthCheck_tick_synced [OF tick]
    by (auto simp: isServiceAlive_def)
qed

text \<open>
  The theorem at a registry with orders in CHECKING, whose address accepts connections,
  and billing paused, visited in the order billing, orders.
\<close>

theorem healthCheck_tick_each_service_witness:
  "range_order (services monitored) [''billing'', ''orders'']
   \<and> services monitored ''orders'' = Some (orders\<lparr>Status := CHECKING\<rparr>)
   \<and> services monitored ''billing'' = Some (billing\<lparr>Status := PAUSE\<rparr>)
   \<and> isServiceAlive example_lib ''127.0.0.1:9001'' = UP
   \<and> services (snd (healthCheck_tick example_lib [''billing'', ''orders''] monitored)) ''orders''
       = Some orders
   \<and> filter (\<lambda>e. event_key e = ''orders'')
        (fst (healthCheck_tick example_lib [''billing'', ''orders''] monitored))
       = [Dialed ''orders'' ''127.0.0.1:9001'', Snapshot ''orders'']
   \<and> online (storage monitored)
   \<and> contents (storage (snd (healthCheck_tick example_lib [''billing'', ''orders''] monitored)))
        svcKey
       = Some (json_Marshal example_lib
                (services (snd (healthCheck_tick example_lib [''billing'', ''orders''] monitored))))
   \<and> services (snd (healthCheck_tick example_lib [''billing'', ''orders''] monitored)) ''billing''
       = Some (billing\<lparr>Status := PAUSE\<rparr>)
   \<and> filter (\<lambda>e. event_key e = ''billing'')
        (fst (healthCheck_tick example_lib [''billing'', ''orders''] monitored))
       = []"
proof -
  let ?ks = "[''billing'', ''orders'']"
  let ?evs = "fst (healthCheck_tick example_lib ?ks monitored)"
  let ?n1 = "snd (healthCheck_tick example_lib ?ks monitored)"
  have h1: "range_order (services monitored) ?ks"
    by (auto simp: range_order_def monitored_def split: if_splits)
  have h2: "services monitored ''orders'' = Some (orders\<lparr>Status := CHECKING\<rparr>)"
    by (simp add: monitored_def)
  have h3: "services monitored ''billing'' = Some (billing\<lparr>Status := PAUSE\<rparr>)"
    by (simp add: monitored_def)
  have h4: "healthCheck_tick example_lib ?ks monitored = (?evs, ?n1)"
    by simp
  have h5: "online (storage monitored)"
    by (simp add: monitored_def gateway_def empty_store_def)
  have alive: "isServiceAlive example_lib ''127.0.0.1:9001'' = UP"
    by (simp add: isServiceAlive_def example_lib_def example_dial_def)
  have facts: "HealthCheckURL (orders\<lparr>Status := CHECKING\<rparr>) = ''127.0.0.1:9001''"
    "Status (orders\<lparr>Status := CHECKING\<rparr>) \<noteq> PAUSE"
    "Status (orders\<lparr>Status := CHECKING\<rparr>) \<noteq> UP"
    "orders\<lparr>Status := CHECKING, Status := UP\<rparr> = orders"
    "Status (billing\<lparr>Status := PAUSE\<rparr>) = PAUSE"
    by (simp_all add: orders_def constant_defs)
  note first = healthCheck_tick_each_service [OF h1 h2 h4]
  note second = healthCheck_tick_each_service [OF h1 h3 h4]
  have r1: "services ?n1 ''orders'' = Some orders"
    using first facts alive by simp
  have r2: "filter (\<lambda>e. event_key e = ''orders'') ?evs
              = [Dialed ''orders'' ''127.0.0.1:9001'', Snapshot ''orders'']"
    using first facts alive by simp
  have "Snapshot ''orders'' \<in> set (filter (\<lambda>e. event_key e = ''orders'') ?evs)"
    unfolding r2 by simp
  then have "Snapshot ''orders'' \<in> set ?evs"
    by simp
  then have r3: "contents (storage ?n1) svcKey = Some (json_Marshal example_lib (services ?n1))"
    using first h5 by blast
  have r4: "services ?n1 ''billing'' = Some (billing\<lparr>Status := PAUSE\<rparr>)"
    using second facts by simp
  have r5: "filter (\<lambda>e. event_key e = ''billing'') ?evs = []"
    using second facts by simp
  show ?thesis
    using h1 h2 h3 alive r1 r2 h5 r3 r4 r5 by blast
qed

subsection \<open>Snapshot and load\<close>

lemma services_AddService:
  "services (snd (AddService lib n s)) =
     (if Trim (Path s) ''/'' \<noteq> []
      then (services n)(strings_ToLower lib (Trim (Path s) ''/'') \<mapsto> s)
      else services n)"
  by (simp add: AddService_def Let_def split_beta services_UpdateStorage)

lemma load_services_ok:
  "(\<And>v. v \<in> set vs \<Longrightarrow> url_Parse lib (Host v) \<noteq> None) \<Longrightarrow>
   fst (load_services lib vs n) = None"
  by (induction vs arbitrary: n) (auto simp: split_beta split: option.splits)

lemma load_services_other:
  "k \<notin> (\<lambda>v. strings_ToLower lib (Trim (Path v) ''/'')) ` set vs \<Longrightarrow>
   services (snd (load_services lib vs n)) k = services n k"
  by (induction vs arbitrary: n)
     (auto simp: split_beta services_AddService split: option.splits)

lemma load_services_entry:
  assumes "\<And>v. v \<in> set vs \<Longrightarrow> url_Parse lib (Host v) \<noteq> None"
      and "distinct (map (\<lambda>v. strings_ToLower lib (Trim (Path v) ''/'')) vs)"
      and "v \<in> set vs"
      and "Trim (Path v) ''/'' \<noteq> []"
    shows "\<exists>u. services (snd (load_services lib vs n))
                  (strings_ToLower lib (Trim (Path v) ''/'')) = Some u
             \<and> Host u = Host v \<and> Path u = Path v \<and> HealthCheckURL u = HealthCheckURL v"
  using assms
proof (induction vs arbitrary: n)
  case Nil
  then show ?case by simp
next
  case (Cons w vs)
  obtain sURL where parsed: "url_Parse lib (Host w) = Some sURL"
    using Cons.prems(1) [of w] by auto
  let ?n1 = "snd (AddService lib n \<lparr>Host = Host w, Path = Path w, Status = [],
                  HealthCheckURL = HealthCheckURL w, reverseProxy = Some sURL\<rparr>)"
  have step: "load_services lib (w # vs) n = load_services lib vs ?n1"
    using parsed by (simp add: split_beta)
  show ?case
  proof (cases "v \<in> set vs")
    case True
    then show ?thesis
      using Cons.IH [of ?n1] Cons.prems step by simp
  next
    case False
    then have "v = w" using Cons.prems(3) by simp
    moreover have "strings_ToLower lib (Trim (Path w) ''/'')
                     \<notin> (\<lambda>v. strings_ToLower lib (Trim (Path v) ''/'')) ` set vs"
      using Cons.prems(2) by simp
    ultimately show ?thesis
      using load_services_other [of "strings_ToLower lib (Trim (Path w) ''/'')" lib vs ?n1]
        Cons.prems(4) step
      by (simp add: services_AddService)
  qed
qed

lemma map_filter_total:
  "set ks \<subseteq> dom m \<Longrightarrow>
   List.map_filter (\<lambda>k. map_option f (m k)) ks = map (\<lambda>k. f (the (m k))) ks"
  by (induction ks) (auto simp: List.map_filter_simps)

text \<open>
  C3, as amended. A gateway whose store is reachable, in whose registry every key is
  the lower-cased, trimmed and non-empty path of its service (the key under which
  AddService stores it) and every host parses, and whose snapshot text decodes to its
  keys and exported fields as they are (as encoding/json does when they are valid
  UTF-8). UpdateStorage, followed by LoadFromStorage into an empty registry on the same
  store, in any order \<open>ks\<close> of the decoded keys: both return no error, the loaded
  registry has the same keys, and each of its services has the host, the path and the
  health check URL of the service it was saved from. Nothing is said of the status.
  This holds for every library.
\<close>

theorem snapshot_load_roundtrip:
  assumes reachable: "online (storage n)"
      and normal: "\<forall>k s. services n k = Some s \<longrightarrow>
                     k = strings_ToLower lib (Trim (Path s) ''/'') \<and> Trim (Path s) ''/'' \<noteq> []
                     \<and> url_Parse lib (Host s) \<noteq> None"
      and decodes: "json_Unmarshal lib (json_Marshal lib (services n))
                      = Some (\<lambda>k. map_option exported (services n k))"
      and order: "range_order (services n) ks"
      and snapshot: "UpdateStorage lib n = (e1, n1)"
      and load: "LoadFromStorage lib ks
                   \<lparr>services = Map.empty, storage = storage n1, opts = o1\<rparr> = (e2, n2)"
    shows "e1 = None \<and> e2 = None \<and> dom (services n2) = dom (services n)
         \<and> (\<forall>k s. services n k = Some s \<longrightarrow>
               (\<exists>u. services n2 k = Some u \<and> Host u = Host s \<and> Path u = Path s
                    \<and> HealthCheckURL u = HealthCheckURL s))"
proof -
  let ?key = "\<lambda>v. strings_ToLower lib (Trim (Path v) ''/'')"
  let ?fresh = "\<lparr>services = Map.empty, storage = storage n1, opts = o1\<rparr>"
  let ?vs = "map (\<lambda>k. exported (the (services n k))) ks"
  have written: "e1 = None"
    "contents (storage n1) svcKey = Some (json_Marshal lib (services n))" "online (storage n1)"
    using snapshot reachable by (auto simp: UpdateStorage_def storage_Set_def)
  have keys: "set ks = dom (services n)" "distinct ks"
    using order by (simp_all add: range_order_def)
  have decoded: "range_values (\<lambda>k. map_option exported (services n k)) ks = ?vs"
    unfolding range_values_def using keys(1) by (intro map_filter_total) simp
  have loaded: "LoadFromStorage lib ks ?fresh = load_services lib ?vs ?fresh"
    using written decoded decodes
    by (simp add: LoadFromStorage_def storage_Get_def)
  have key_of: "?key (exported (the (services n k))) = k" if "k \<in> set ks" for k
    using that keys(1) normal by (auto simp: exported_def)
  have parses: "url_Parse lib (Host v) \<noteq> None" if "v \<in> set ?vs" for v
    using that keys(1) normal by (auto simp: exported_def)
  have "map ?key ?vs = ks"
    using key_of by (simp add: map_idI comp_def)
  then have distinct_keys: "distinct (map ?key ?vs)" and image: "?key ` set ?vs = set ks"
    using keys(2) by (simp_all add: image_image key_of)
  have no_error: "e2 = None"
    using load_services_ok [of ?vs lib ?fresh] parses load loaded by simp
  have result: "services n2 = services (snd (load_services lib ?vs ?fresh))"
    using load loaded by simp
  have entries: "\<exists>u. services n2 k = Some u \<and> Host u = Host s \<and> Path u = Path s
                    \<and> HealthCheckURL u = HealthCheckURL s"
    if "services n k = Some s" for k s
  proof -
    have member: "k \<in> set ks" using that keys(1) by auto
    then have "exported s \<in> set ?vs" using that by force
    moreover have "Trim (Path (exported s)) ''/'' \<noteq> []" and "?key (exported s) = k"
      using that normal by (auto simp: exported_def)
    ultimately show ?thesis
      using load_services_entry [of ?vs lib "exported s" ?fresh] parses distinct_keys result
      by (auto simp: exported_def)
  qed
  have "dom (services n2) = dom (services n)"
  proof (rule set_eqI)
    fix k
    show "k \<in> dom (services n2) \<longleftrightarrow> k \<in> dom (services n)"
    proof (cases "k \<in> dom (services n)")
      case True
      then show ?thesis using entries by force
    next
      case False
      then have "k \<notin> ?key ` set ?vs" using image keys(1) by simp
      then have "services n2 k = None"
        using load_services_other [of k lib ?vs ?fresh] result by simp
      then show ?thesis using False by auto
    qed
  qed
  then show ?thesis
    using written(1) no_error entries by blast
qed

text \<open>
  The theorem at the gateway with the one service orders, saved to and loaded from an
  empty store.
\<close>

theorem snapshot_load_roundtrip_witness:
  "online (storage gateway)
   \<and> dom (services gateway) = {''orders''}
   \<and> services gateway ''orders'' = Some orders
   \<and> ''orders'' = strings_ToLower example_lib (Trim (Path orders) ''/'')
   \<and> url_Parse example_lib (Host orders) = Some orders_proxy
   \<and> json_Unmarshal example_lib (json_Marshal example_lib (services gateway))
       = Some (\<lambda>k. map_option exported (services gateway k))
   \<and> range_order (services gateway) [''orders'']
   \<and> fst (UpdateStorage example_lib gateway) = None
   \<and> fst (LoadFromStorage example_lib [''orders'']
            \<lparr>services = Map.empty, storage = storage (snd (UpdateStorage example_lib gateway)),
             opts = default_opts\<rparr>) = None
   \<and> dom (services (snd (LoadFromStorage example_lib [''orders'']
            \<lparr>services = Map.empty, storage = storage (snd (UpdateStorage example_lib gateway)),
             opts = default_opts\<rparr>))) = {''orders''}
   \<and> map_option Host (services (snd (LoadFromStorage example_lib [''orders'']
            \<lparr>services = Map.empty, storage = storage (snd (UpdateStorage example_lib gateway)),
             opts = default_opts\<rparr>)) ''orders'') = Some ''http://127.0.0.1:9001''
   \<and> map_option Path (services (snd (LoadFromStorage example_lib [''orders'']
            \<lparr>services = Map.empty, storage = storage (snd (UpdateStorage example_lib gateway)),
             opts = default_opts\<rparr>)) ''orders'') = Some ''orders''
   \<and> map_option HealthCheckURL (services (snd (LoadFromStorage example_lib [''orders'']
            \<lparr>services = Map.empty, storage = storage (snd (UpdateStorage example_lib gateway)),
             opts = default_opts\<rparr>)) ''orders'') = Some ''127.0.0.1:9001''"
proof -
  let ?fresh = "\<lparr>services = Map.empty, storage = storage (snd (UpdateStorage example_lib gateway)),
                 opts = default_opts\<rparr>"
  let ?n2 = "snd (LoadFromStorage example_lib [''orders''] ?fresh)"
  have h1: "online (storage gateway)"
    by (simp add: gateway_def empty_store_def)
  have h2: "dom (services gateway) = {''orders''}"
    by (simp add: gateway_def)
  have h3: "services gateway ''orders'' = Some orders"
    by (simp add: gateway_def)
  have h4: "''orders'' = strings_ToLower example_lib (Trim (Path orders) ''/'')"
    by (simp add: orders_def strings_defs example_ToLower ascii_lower_def)
  have h5: "url_Parse example_lib (Host orders) = Some orders_proxy"
    by (simp add: example_lib_def orders_def orders_proxy_def example_Parse_def strings_defs)
  have h6: "range_order (services gateway) [''orders'']"
    by (simp add: range_order_def gateway_def)
  have h7: "json_Unmarshal example_lib (json_Marshal example_lib (services gateway))
              = Some (\<lambda>k. map_option exported (services gateway k))"
    by (simp add: example_lib_def example_Marshal_def example_Unmarshal_def)
  have nonempty: "Trim (Path orders) ''/'' \<noteq> []"
    by (simp add: orders_def strings_defs)
  have normal: "\<forall>k s. services gateway k = Some s \<longrightarrow>
                  k = strings_ToLower example_lib (Trim (Path s) ''/'')
                  \<and> Trim (Path s) ''/'' \<noteq> []
                  \<and> url_Parse example_lib (Host s) \<noteq> None"
    using h4 h5 nonempty by (auto simp: gateway_def split: if_splits)
  have snapshot: "UpdateStorage example_lib gateway
                    = (fst (UpdateStorage example_lib gateway), snd (UpdateStorage example_lib gateway))"
    by simp
  have load: "LoadFromStorage example_lib [''orders''] ?fresh
                = (fst (LoadFromStorage example_lib [''orders''] ?fresh), ?n2)"
    by simp
  note main = snapshot_load_roundtrip [OF h1 normal h7 h6 snapshot load]
  have r1: "fst (UpdateStorage example_lib gateway) = None"
    and r2: "fst (LoadFromStorage example_lib [''orders''] ?fresh) = None"
    and r3: "dom (services ?n2) = {''orders''}"
    using main h2 by simp_all
  obtain u where u: "services ?n2 ''orders'' = Some u" "Host u = Host orders"
      "Path u = Path orders" "HealthCheckURL u = HealthCheckURL orders"
    using main h3 by blast
  have r4: "map_option Host (services ?n2 ''orders'') = Some ''http://127.0.0.1:9001''"
    and r5: "map_option Path (services ?n2 ''orders'') = Some ''orders''"
    and r6: "map_option HealthCheckURL (services ?n2 ''orders'') = Some ''127.0.0.1:9001''"
    using u by (simp_all add: orders_def)
  show ?thesis
    using h1 h2 h3 h4 h5 h7 h6 r1 r2 r3 r4 r5 r6 by blast
qed

text \<open>
  C3 as it is stated fails. NewFromConfig stores a configured service under its trimmed
  path as written, here Orders; saved and loaded into an empty registry, the service
  comes back under the key orders, so the keys are not the same. And a service added
  with a host that does not parse is saved, but LoadFromStorage returns the parser's
  error and the loaded registry does not have its key.
\<close>

theorem snapshot_load_roundtrip_counterexample:
  "NewFromConfig example_lib [] capital_config (Some empty_store) = Inr (Inr (seeded, None))
   \<and> services seeded ''Orders'' = Some seeded_service
   \<and> UpdateStorage example_lib seeded = (None, seeded)
   \<and> fst (LoadFromStorage example_lib [''Orders'']
            \<lparr>services = Map.empty, storage = storage seeded, opts = default_opts\<rparr>) = None
   \<and> services (snd (LoadFromStorage example_lib [''Orders'']
            \<lparr>services = Map.empty, storage = storage seeded, opts = default_opts\<rparr>)) ''Orders''
       = None
   \<and> services (snd (LoadFromStorage example_lib [''Orders'']
            \<lparr>services = Map.empty, storage = storage seeded, opts = default_opts\<rparr>)) ''orders''
       = Some (seeded_service\<lparr>Status := []\<rparr>)
   \<and> services (snd (AddService example_lib (gateway\<lparr>services := Map.empty\<rparr>) unparsed)) ''billing''
       = Some unparsed
   \<and> fst (UpdateStorage example_lib
            (snd (AddService example_lib (gateway\<lparr>services := Map.empty\<rparr>) unparsed))) = None
   \<and> LoadFromStorage example_lib [''billing'']
        \<lparr>services = Map.empty,
         storage = storage (snd (UpdateStorage example_lib
                     (snd (AddService example_lib (gateway\<lparr>services := Map.empty\<rparr>) unparsed)))),
         opts = default_opts\<rparr> =
       (Some ParseError,
        \<lparr>services = Map.empty,
         storage = storage (snd (UpdateStorage example_lib
                     (snd (AddService example_lib (gateway\<lparr>services := Map.empty\<rparr>) unparsed)))),
         opts = default_opts\<rparr>)"
  by (simp add: NewFromConfig_def redis_NewClient_def LoadFromStorage_def storage_Get_def
        range_values_def List.map_filter_def AddService_def UpdateStorage_def storage_Set_def
        Let_def example_defs strings_defs constant_defs)

end
